theory Spec2Isabelle
  imports Complex_Main
begin

section \<open>Values exchanged by the STT service\<close>

text \<open>
  The service (\<^verbatim>\<open>src/services/stt/main.py\<close>) is a pair of request handlers around an
  external transcription engine, a temporary file and a JSON renderer. Python strings are
  modelled as lists of characters (code points below 256), numbers reported by the engine
  as rationals, and every exception as a value.
\<close>

type_synonym path = string
type_synonym bytes = string

text \<open>
  The exceptions the handlers raise or let through. \<open>HTTPException\<close> carries
  \<^verbatim>\<open>status_code\<close> and \<^verbatim>\<open>detail\<close>; \<open>UnboundLocalError\<close> names the variable that was read
  before assignment; \<open>TypeError\<close> and \<open>OSError\<close> carry their message; \<open>Exception\<close> stands
  for any other subclass of Python's \<^verbatim>\<open>Exception\<close> raised by a collaborator.
\<close>

datatype exn =
    HTTPException nat string
  | UnboundLocalError string
  | OSError string
  | TypeError string
  | Exception string

text \<open>The dictionary returned by \<^verbatim>\<open>whisper_model.transcribe\<close>; optional keys are options.\<close>

record segment =
  seg_start :: rat
  seg_end :: rat
  seg_text :: string

record whisper_result =
  res_text :: string
  res_language :: "string option"
  res_duration :: "rat option"
  res_segments :: "segment list option"

text \<open>The \<^verbatim>\<open>response\<close> dictionary built by \<^verbatim>\<open>transcribe_audio\<close> (lines 107 to 122).\<close>

record response_segment =
  rs_start :: rat
  rs_end :: rat
  rs_text :: string

record response =
  resp_text :: string
  resp_language :: "string option"
  resp_duration :: rat
  resp_filename :: string
  resp_segments :: "response_segment list option"

text \<open>
  A \<^verbatim>\<open>JSONResponse\<close> is determined by the content it was constructed from; its
  \<^verbatim>\<open>body\<close> attribute is the rendering of that content.
\<close>

datatype 'c json_response = JSONResponse (content_of: 'c)

definition body :: "('c \<Rightarrow> string) \<Rightarrow> 'c json_response \<Rightarrow> string" where
  "body rnd r = rnd (content_of r)"

definition has_body :: "'c json_response \<Rightarrow> bool" where
  \<comment> \<open>\<^verbatim>\<open>hasattr(result, 'body')\<close>: every \<^verbatim>\<open>JSONResponse\<close> has the attribute.\<close>
  "has_body r = True"

text \<open>
  An \<^verbatim>\<open>UploadFile\<close>: its name, its content type, and what \<^verbatim>\<open>await file.read()\<close> yields
  (the bytes, or the exception the read raises).
\<close>

record upload_file =
  uf_filename :: string
  uf_content_type :: string
  uf_read :: "exn + bytes"

section \<open>The collaborators\<close>

type_synonym engine = "path \<Rightarrow> string option \<Rightarrow> bool \<Rightarrow> exn + whisper_result"

text \<open>
  Everything the handlers obtain from outside:
  \<^item> \<open>whisper_model\<close>: the module global, \<open>None\<close> until a model is loaded; a loaded model
    maps (path, language, word\_timestamps) to a result dictionary or an exception;
  \<^item> \<open>tmp_stem\<close>: the name \<^verbatim>\<open>tempfile.NamedTemporaryFile\<close> picks in front of the suffix,
    given the files that exist, or the exception it raises;
  \<^item> \<open>write_file\<close>: the exception \<^verbatim>\<open>temp_file.write(content)\<close> raises, if any;
  \<^item> \<open>close_file\<close>: the exception raised when the \<^verbatim>\<open>with\<close> block of line 92 is left and
    the temporary file is closed (the close flushes the buffered bytes), if any;
  \<^item> \<open>upload_file_init\<close>: the exception the framework's constructor raises for
    \<^verbatim>\<open>UploadFile(filename=..., file=..., content_type=...)\<close>, if any, given the filename and
    the content type (Starlette 0.24 and later have no \<^verbatim>\<open>content_type\<close> parameter and raise
    \<^verbatim>\<open>TypeError\<close>; earlier versions build the object);
  \<^item> \<open>unlink_denied\<close>: the paths the operating system refuses to delete;
  \<^item> \<open>str_of\<close>: Python's \<^verbatim>\<open>str(e)\<close> on an exception;
  \<^item> \<open>render\<close>: the JSON text \<^verbatim>\<open>JSONResponse\<close> renders for a response dictionary;
  \<^item> \<open>hash_rank\<close>: the position a string takes when a set of strings is iterated
    (Python leaves the order of a set to its hashing).
\<close>

record env =
  whisper_model :: "engine option"
  tmp_stem :: "path set \<Rightarrow> exn + string"
  write_file :: "path \<Rightarrow> bytes \<Rightarrow> exn option"
  close_file :: "path \<Rightarrow> exn option"
  upload_file_init :: "string \<Rightarrow> string \<Rightarrow> exn option"
  unlink_denied :: "path \<Rightarrow> bool"
  str_of :: "exn \<Rightarrow> string"
  render :: "response \<Rightarrow> string"
  hash_rank :: "string \<Rightarrow> nat"

text \<open>
  The state the handlers change: the paths that exist on the filesystem, and the calls
  made to the engine so far (path, language, word\_timestamps), oldest first.
\<close>

record world =
  files :: "path set"
  engine_calls :: "(path \<times> string option \<times> bool) list"

section \<open>Library functions the handlers call\<close>

subsection \<open>\<^verbatim>\<open>os.path.splitext\<close> (posixpath)\<close>

fun rfind_from :: "char \<Rightarrow> string \<Rightarrow> int \<Rightarrow> int \<Rightarrow> int" where
  "rfind_from c [] i found = found"
| "rfind_from c (x # xs) i found = rfind_from c xs (i + 1) (if x = c then i else found)"

definition rfind :: "string \<Rightarrow> char \<Rightarrow> int" where
  \<comment> \<open>\<^verbatim>\<open>p.rfind(c)\<close>: the highest index of \<open>c\<close>, or -1.\<close>
  "rfind p c = rfind_from c p 0 (-1)"

function scan_leading_dots :: "string \<Rightarrow> int \<Rightarrow> int \<Rightarrow> bool" where
  "scan_leading_dots p filenameIndex dotIndex =
     (if filenameIndex < dotIndex
      then (if take 1 (drop (nat filenameIndex) p) \<noteq> ''.'' then True
            else scan_leading_dots p (filenameIndex + 1) dotIndex)
      else False)"
  by pat_completeness auto
termination
  by (relation "measure (\<lambda>(p, i, d). nat (d - i))") auto

declare scan_leading_dots.simps [simp del]

definition splitext :: "string \<Rightarrow> string \<times> string" where
  "splitext p =
     (let sepIndex = rfind p (CHR ''/'');
          dotIndex = rfind p (CHR ''.'')
      in if dotIndex > sepIndex \<and> scan_leading_dots p (sepIndex + 1) dotIndex
         then (take (nat dotIndex) p, drop (nat dotIndex) p)
         else (p, ''''))"

subsection \<open>\<^verbatim>\<open>str.lower\<close> and \<^verbatim>\<open>str.strip\<close>\<close>

definition lower_char :: "char \<Rightarrow> char" where
  "lower_char c =
     (let n = (of_char c :: nat)
      in if (65 \<le> n \<and> n \<le> 90) \<or> (192 \<le> n \<and> n \<le> 222 \<and> n \<noteq> 215)
         then char_of (n + 32) else c)"

definition lower :: "string \<Rightarrow> string" where
  "lower s = map lower_char s"

definition is_space :: "char \<Rightarrow> bool" where
  \<comment> \<open>\<^verbatim>\<open>str.isspace\<close> on code points below 256.\<close>
  "is_space c =
     (let n = (of_char c :: nat)
      in (9 \<le> n \<and> n \<le> 13) \<or> (28 \<le> n \<and> n \<le> 32) \<or> n = 133 \<or> n = 160)"

definition strip :: "string \<Rightarrow> string" where
  "strip s = rev (dropWhile is_space (rev (dropWhile is_space s)))"

subsection \<open>\<^verbatim>\<open>str\<close> of a set of strings\<close>

definition set_iteration :: "env \<Rightarrow> string list \<Rightarrow> string list" where
  \<comment> \<open>the order in which the elements of a set literal are visited\<close>
  "set_iteration env xs = sort_key (hash_rank env) xs"

definition repr_str :: "string \<Rightarrow> string" where
  \<comment> \<open>\<^verbatim>\<open>repr\<close> of a string without quotes, backslashes or control characters\<close>
  "repr_str s = [CHR 39] @ s @ [CHR 39]"

fun join :: "string \<Rightarrow> string list \<Rightarrow> string" where
  "join sep [] = ''''"
| "join sep [x] = x"
| "join sep (x # y # ys) = x @ sep @ join sep (y # ys)"

definition repr_set :: "string list \<Rightarrow> string" where
  "repr_set xs = ''{'' @ join '', '' (map repr_str xs) @ ''}''"

subsection \<open>The temporary file\<close>

definition named_temporary_file :: "env \<Rightarrow> string \<Rightarrow> world \<Rightarrow> exn + (path \<times> world)" where
  \<comment> \<open>\<^verbatim>\<open>tempfile.NamedTemporaryFile(delete=False, suffix=suffix)\<close>: the file exists on return\<close>
  "named_temporary_file env suffix w =
     (case tmp_stem env (files w) of
        Inl e \<Rightarrow> Inl e
      | Inr stem \<Rightarrow> Inr (stem @ suffix, w\<lparr>files := insert (stem @ suffix) (files w)\<rparr>))"

definition os_unlink :: "env \<Rightarrow> path \<Rightarrow> world \<Rightarrow> exn + world" where
  \<comment> \<open>\<^verbatim>\<open>os.unlink\<close>: removes the path, or raises \<^verbatim>\<open>OSError\<close> and leaves the filesystem as it is\<close>
  "os_unlink env p w =
     (if p \<notin> files w then Inl (OSError ''No such file or directory'')
      else if unlink_denied env p then Inl (OSError ''Permission denied'')
      else Inr (w\<lparr>files := files w - {p}\<rparr>))"

section \<open>\<^verbatim>\<open>transcribe_audio\<close>\<close>

definition allowed_extensions_list :: "string list" where
  "allowed_extensions_list = [''.wav'', ''.mp3'', ''.m4a'', ''.flac'', ''.ogg'', ''.webm'']"

definition allowed_extensions :: "string set" where
  "allowed_extensions = set allowed_extensions_list"

definition file_ext_of :: "upload_file \<Rightarrow> string" where
  \<comment> \<open>line 83: \<^verbatim>\<open>os.path.splitext(file.filename)[1].lower()\<close>\<close>
  "file_ext_of file = lower (snd (splitext (uf_filename file)))"

definition unsupported_detail :: "env \<Rightarrow> string \<Rightarrow> string" where
  \<comment> \<open>line 88: \<^verbatim>\<open>f"Unsupported file type: {file_ext}. Allowed: {allowed_extensions}"\<close>\<close>
  "unsupported_detail env file_ext =
     ''Unsupported file type: '' @ file_ext @ ''. Allowed: ''
       @ repr_set (set_iteration env allowed_extensions_list)"

definition effective_language :: "string option \<Rightarrow> string option" where
  \<comment> \<open>line 103: \<^verbatim>\<open>language if language in ["si", "en"] else None\<close>\<close>
  "effective_language language =
     (if language \<in> set [Some ''si'', Some ''en''] then language else None)"

definition response_segments :: "segment list \<Rightarrow> response_segment list" where
  \<comment> \<open>lines 115 to 122: the list comprehension over \<^verbatim>\<open>result["segments"]\<close>\<close>
  "response_segments segs =
     map (\<lambda>segment. \<lparr>rs_start = seg_start segment, rs_end = seg_end segment,
                      rs_text = seg_text segment\<rparr>) segs"

definition build_response ::
  "upload_file \<Rightarrow> string option \<Rightarrow> bool \<Rightarrow> whisper_result \<Rightarrow> response" where
  \<comment> \<open>lines 107 to 122\<close>
  "build_response file language timestamp result =
     (let response =
            \<lparr>resp_text = strip (res_text result),
             resp_language = (case res_language result of Some l \<Rightarrow> Some l | None \<Rightarrow> language),
             resp_duration = (case res_duration result of Some d \<Rightarrow> d | None \<Rightarrow> 0),
             resp_filename = uf_filename file,
             resp_segments = None\<rparr>
      in case res_segments result of
           Some segs \<Rightarrow>
             if timestamp then response\<lparr>resp_segments := Some (response_segments segs)\<rparr>
             else response
         | None \<Rightarrow> response)"

definition transcription_failed :: "env \<Rightarrow> exn \<Rightarrow> exn" where
  \<comment> \<open>lines 127 to 129: the \<^verbatim>\<open>except Exception\<close> clause\<close>
  "transcription_failed env e =
     HTTPException 500 (''Transcription failed: '' @ str_of env e)"

text \<open>
  The \<^verbatim>\<open>try\<close> body with its \<^verbatim>\<open>except\<close> clause (lines 93 to 129). It returns the value of
  \<^verbatim>\<open>temp_file_path\<close> (\<open>None\<close> while the variable is unbound), the outcome so far, and the
  state. \<^verbatim>\<open>temp_file_path\<close> is assigned only after the read and the write.
\<close>

definition try_body ::
  "env \<Rightarrow> engine \<Rightarrow> upload_file \<Rightarrow> string option \<Rightarrow> bool \<Rightarrow> path \<Rightarrow> world
   \<Rightarrow> path option \<times> (exn + response json_response) \<times> world" where
  "try_body env model file language timestamp temp_name w =
     (case uf_read file of
        Inl e \<Rightarrow> (None, Inl (transcription_failed env e), w)
      | Inr content \<Rightarrow>
          (case write_file env temp_name content of
             Some e \<Rightarrow> (None, Inl (transcription_failed env e), w)
           | None \<Rightarrow>
               (let temp_file_path = temp_name;
                    hint = effective_language language;
                    w' = w\<lparr>engine_calls := engine_calls w @ [(temp_file_path, hint, timestamp)]\<rparr>
                in case model temp_file_path hint timestamp of
                     Inl e \<Rightarrow> (Some temp_file_path, Inl (transcription_failed env e), w')
                   | Inr result \<Rightarrow>
                       (Some temp_file_path,
                        Inr (JSONResponse (build_response file language timestamp result)),
                        w'))))"

text \<open>
  The \<^verbatim>\<open>finally\<close> clause (lines 131 to 136): \<^verbatim>\<open>os.unlink(temp_file_path)\<close> guarded by
  \<^verbatim>\<open>except OSError: pass\<close>. Reading the unbound variable raises \<^verbatim>\<open>UnboundLocalError\<close>,
  which the guard does not catch and which replaces the pending outcome.
\<close>

definition finally_cleanup ::
  "env \<Rightarrow> path option \<Rightarrow> (exn + response json_response) \<Rightarrow> world
   \<Rightarrow> (exn + response json_response) \<times> world" where
  "finally_cleanup env temp_file_path outcome w =
     (case temp_file_path of
        None \<Rightarrow> (Inl (UnboundLocalError ''temp_file_path''), w)
      | Some p \<Rightarrow>
          (case os_unlink env p w of
             Inl (OSError msg) \<Rightarrow> (outcome, w)
           | Inl e \<Rightarrow> (Inl e, w)
           | Inr w' \<Rightarrow> (outcome, w')))"

text \<open>
  Leaving the \<^verbatim>\<open>with\<close> block of line 92, after the \<^verbatim>\<open>finally\<close> clause: the temporary file
  is closed (it is not deleted, \<^verbatim>\<open>delete=False\<close>). An exception raised by the close
  replaces the return value or the exception that was pending.
\<close>

definition with_exit ::
  "env \<Rightarrow> path \<Rightarrow> (exn + response json_response) \<times> world
   \<Rightarrow> (exn + response json_response) \<times> world" where
  "with_exit env temp_name pending =
     (case close_file env temp_name of
        Some e \<Rightarrow> (Inl e, snd pending)
      | None \<Rightarrow> pending)"

definition transcribe_audio ::
  "env \<Rightarrow> upload_file \<Rightarrow> string option \<Rightarrow> bool \<Rightarrow> world
   \<Rightarrow> (exn + response json_response) \<times> world" where
  "transcribe_audio env file language timestamp w =
     (case whisper_model env of
        None \<Rightarrow> (Inl (HTTPException 500 ''Whisper model not loaded''), w)
      | Some model \<Rightarrow>
          (let file_ext = file_ext_of file
           in if file_ext \<notin> allowed_extensions
              then (Inl (HTTPException 400 (unsupported_detail env file_ext)), w)
              else (case named_temporary_file env file_ext w of
                      Inl e \<Rightarrow> (Inl e, w)
                    | Inr (temp_name, w1) \<Rightarrow>
                        (case try_body env model file language timestamp temp_name w1 of
                           (temp_file_path, outcome, w2) \<Rightarrow>
                             with_exit env temp_name
                               (finally_cleanup env temp_file_path outcome w2)))))"

section \<open>\<^verbatim>\<open>transcribe_batch\<close>\<close>

text \<open>
  The value stored under \<^verbatim>\<open>"result"\<close>:
  \<^verbatim>\<open>result.body.decode() if hasattr(result, 'body') else result\<close>.
\<close>

datatype payload = Decoded string | Raw "response json_response"

text \<open>The third key of an entry is \<^verbatim>\<open>"result"\<close> on success and \<^verbatim>\<open>"error"\<close> on failure.\<close>

datatype entry_detail = Result payload | Error string

record batch_entry =
  be_filename :: string
  be_status :: string
  be_detail :: entry_detail

record batch_content =
  results :: "batch_entry list"

text \<open>
  What the \<^verbatim>\<open>try\<close> body of the loop computes before it appends (lines 158 to 168): the
  upload is wrapped again, which fails where the constructor does not take
  \<^verbatim>\<open>content_type\<close>, and the single-item handler is called on the new object.
\<close>

definition item_call ::
  "env \<Rightarrow> string option \<Rightarrow> upload_file \<Rightarrow> world
   \<Rightarrow> (exn + response json_response) \<times> world" where
  "item_call env language file w =
     (case upload_file_init env (uf_filename file) (uf_content_type file) of
        Some e \<Rightarrow> (Inl e, w)
      | None \<Rightarrow>
          (let single_file = \<lparr>uf_filename = uf_filename file,
                               uf_content_type = uf_content_type file,
                               uf_read = uf_read file\<rparr>
           in transcribe_audio env single_file language False w))"

definition batch_item ::
  "env \<Rightarrow> string option \<Rightarrow> upload_file \<Rightarrow> world \<Rightarrow> batch_entry \<times> world" where
  \<comment> \<open>one iteration of the loop, lines 156 to 182\<close>
  "batch_item env language file w =
     (case item_call env language file w of
        (Inr result, w') \<Rightarrow>
          (\<lparr>be_filename = uf_filename file, be_status = ''success'',
            be_detail = Result (if has_body result then Decoded (body (render env) result)
                                else Raw result)\<rparr>, w')
      | (Inl e, w') \<Rightarrow>
          (\<lparr>be_filename = uf_filename file, be_status = ''error'',
            be_detail = Error (str_of env e)\<rparr>, w'))"

fun batch_loop ::
  "env \<Rightarrow> string option \<Rightarrow> upload_file list \<Rightarrow> batch_entry list \<times> world
   \<Rightarrow> batch_entry list \<times> world" where
  "batch_loop env language [] (acc, w) = (acc, w)"
| "batch_loop env language (file # rest) (acc, w) =
     (case batch_item env language file w of
        (entry, w') \<Rightarrow> batch_loop env language rest (acc @ [entry], w'))"

definition transcribe_batch ::
  "env \<Rightarrow> upload_file list \<Rightarrow> string option \<Rightarrow> world
   \<Rightarrow> batch_content json_response \<times> world" where
  "transcribe_batch env files_in language w =
     (case batch_loop env language files_in ([], w) of
        (acc, w') \<Rightarrow> (JSONResponse \<lparr>results = acc\<rparr>, w'))"

text \<open>
  The state in which the batch reaches its \<open>i\<close>-th file: the state left by the per-item
  calls for the files before it.
\<close>

fun world_after :: "env \<Rightarrow> string option \<Rightarrow> upload_file list \<Rightarrow> world \<Rightarrow> world" where
  "world_after env language [] w = w"
| "world_after env language (file # rest) w =
     world_after env language rest (snd (item_call env language file w))"

section \<open>Sample collaborators and requests\<close>

text \<open>
  Concrete collaborators on which the handlers can be run: an engine that answers every
  call with the same dictionary, one that raises, a temporary directory that always
  offers the same free name, and simple stand-ins for \<^verbatim>\<open>str\<close> and the JSON renderer.
  \<open>sample_env\<close> behaves as Starlette before 0.24 does: the constructor of \<^verbatim>\<open>UploadFile\<close> takes
  \<^verbatim>\<open>content_type\<close>, and \<^verbatim>\<open>str\<close> of an \<^verbatim>\<open>HTTPException\<close> built from keyword arguments is
  empty. \<open>strict_init_env\<close> behaves as Starlette 0.24 and later do: the constructor raises
  \<^verbatim>\<open>TypeError\<close>.
\<close>

definition sample_result :: whisper_result where
  "sample_result =
     \<lparr>res_text = '' hello world '', res_language = Some ''en'', res_duration = None,
      res_segments = Some [\<lparr>seg_start = 0, seg_end = 1, seg_text = '' hello''\<rparr>,
                           \<lparr>seg_start = 1, seg_end = 2, seg_text = '' world ''\<rparr>]\<rparr>"

definition sample_engine :: engine where
  "sample_engine p hint word_timestamps = Inr sample_result"

definition failing_engine :: engine where
  "failing_engine p hint word_timestamps = Inl (Exception ''Failed to load audio'')"

fun sample_str_of :: "exn \<Rightarrow> string" where
  "sample_str_of (HTTPException status_code detail) = ''''"
| "sample_str_of (UnboundLocalError name) = name"
| "sample_str_of (OSError msg) = msg"
| "sample_str_of (TypeError msg) = msg"
| "sample_str_of (Exception msg) = msg"

definition sample_render :: "response \<Rightarrow> string" where
  "sample_render r = ''{text:'' @ resp_text r @ '',filename:'' @ resp_filename r @ ''}''"

definition sample_env :: env where
  "sample_env =
     \<lparr>whisper_model = Some sample_engine,
      tmp_stem = (\<lambda>existing. Inr ''/tmp/tmpa1''),
      write_file = (\<lambda>p data. None),
      close_file = (\<lambda>p. None),
      upload_file_init = (\<lambda>filename content_type. None),
      unlink_denied = (\<lambda>p. False),
      str_of = sample_str_of,
      render = sample_render,
      hash_rank = (\<lambda>s. 0)\<rparr>"

definition wav_file :: upload_file where
  "wav_file =
     \<lparr>uf_filename = ''Clip.WAV'', uf_content_type = ''audio/wav'', uf_read = Inr ''RIFF''\<rparr>"

definition txt_file :: upload_file where
  "txt_file =
     \<lparr>uf_filename = ''clip.txt'', uf_content_type = ''text/plain'', uf_read = Inr ''abc''\<rparr>"

definition test_txt_file :: upload_file where
  \<comment> \<open>the upload of \<^verbatim>\<open>test_transcribe_invalid_file_type\<close>\<close>
  "test_txt_file =
     \<lparr>uf_filename = ''test.txt'', uf_content_type = ''text/plain'',
      uf_read = Inr ''not an audio file''\<rparr>"

definition empty_world :: world where
  "empty_world = \<lparr>files = {}, engine_calls = []\<rparr>"

definition unloaded_env :: env where
  "unloaded_env = sample_env\<lparr>whisper_model := None\<rparr>"

definition locked_env :: env where
  "locked_env = sample_env\<lparr>unlink_denied := (\<lambda>p. True)\<rparr>"

definition disk_full_env :: env where
  "disk_full_env =
     sample_env\<lparr>write_file := (\<lambda>p data. Some (OSError ''No space left on device''))\<rparr>"

definition failing_env :: env where
  "failing_env = sample_env\<lparr>whisper_model := Some failing_engine\<rparr>"

definition flush_failing_env :: env where
  "flush_failing_env =
     sample_env\<lparr>close_file := (\<lambda>p. Some (OSError ''No space left on device''))\<rparr>"

definition content_type_error :: exn where
  "content_type_error =
     TypeError (''UploadFile.__init__() got an unexpected keyword argument ''
                  @ repr_str ''content_type'')"

definition strict_init_env :: env where
  "strict_init_env =
     sample_env\<lparr>upload_file_init := (\<lambda>filename content_type. Some content_type_error)\<rparr>"

definition unloaded_strict_env :: env where
  "unloaded_strict_env = strict_init_env\<lparr>whisper_model := None\<rparr>"

section \<open>Evaluating the library functions\<close>

lemma file_ext_of_wav_file: "file_ext_of wav_file = ''.wav''"
  unfolding file_ext_of_def wav_file_def by code_simp

lemma file_ext_of_txt_file: "file_ext_of txt_file = ''.txt''"
  unfolding file_ext_of_def txt_file_def by code_simp

lemma file_ext_of_test_txt_file: "file_ext_of test_txt_file = ''.txt''"
  unfolding file_ext_of_def test_txt_file_def by code_simp

lemma allowed_extensions_eq:
  "allowed_extensions = {''.wav'', ''.mp3'', ''.m4a'', ''.flac'', ''.ogg'', ''.webm''}"
  by (simp add: allowed_extensions_def allowed_extensions_list_def)

lemma strip_sample: "strip '' hello world '' = ''hello world''"
  by (simp add: strip_def is_space_def)

lemma strip_segment_texts: "strip '' hello'' = ''hello''" "strip '' world '' = ''world''"
  by (simp_all add: strip_def is_space_def)

lemma last_dropWhile: "dropWhile P xs \<noteq> [] \<Longrightarrow> last (dropWhile P xs) = last xs"
  by (induction xs) (auto split: if_splits)

lemma strip_no_edges:
  "strip s = [] \<or> (\<not> is_space (hd (strip s)) \<and> \<not> is_space (last (strip s)))"
proof (cases "strip s = []")
  case True
  then show ?thesis by simp
next
  case False
  define ys where "ys = dropWhile is_space s"
  define zs where "zs = dropWhile is_space (rev ys)"
  have strip_eq: "strip s = rev zs" by (simp add: strip_def ys_def zs_def)
  with False have zs_ne: "zs \<noteq> []" by simp
  then have ys_ne: "ys \<noteq> []" by (auto simp add: zs_def)
  have "\<not> is_space (hd zs)"
    using zs_ne unfolding zs_def by (rule hd_dropWhile)
  then have trailing: "\<not> is_space (last (strip s))"
    using zs_ne by (simp add: strip_eq last_rev)
  have "last zs = last (rev ys)"
    using zs_ne unfolding zs_def by (rule last_dropWhile)
  also have "\<dots> = hd ys" using ys_ne by (simp add: last_rev)
  finally have "hd (strip s) = hd ys" using zs_ne by (simp add: strip_eq hd_rev)
  moreover have "\<not> is_space (hd ys)"
    using ys_ne unfolding ys_def by (rule hd_dropWhile)
  ultimately show ?thesis using trailing by simp
qed

lemma strip_decomposition:
  "\<exists>pre post. s = pre @ strip s @ post \<and> list_all is_space pre \<and> list_all is_space post"
proof -
  define ys where "ys = dropWhile is_space s"
  have "ys = rev (takeWhile is_space (rev ys) @ dropWhile is_space (rev ys))"
    by (simp only: takeWhile_dropWhile_id rev_rev_ident)
  also have "\<dots> = rev (dropWhile is_space (rev ys)) @ rev (takeWhile is_space (rev ys))"
    by (simp only: rev_append)
  finally have ys_eq: "ys = strip s @ rev (takeWhile is_space (rev ys))"
    by (simp only: strip_def ys_def)
  have "s = takeWhile is_space s @ ys" by (simp add: ys_def)
  with ys_eq have "s = takeWhile is_space s @ strip s @ rev (takeWhile is_space (rev ys))"
    by simp
  moreover have "list_all is_space (takeWhile is_space s)"
    by (auto simp add: list_all_iff dest: set_takeWhileD)
  moreover have "list_all is_space (rev (takeWhile is_space (rev ys)))"
    by (auto simp add: list_all_iff dest: set_takeWhileD)
  ultimately show ?thesis by blast
qed

section \<open>How a single-item call unfolds\<close>

lemma single_file_eq:
  "\<lparr>uf_filename = uf_filename file, uf_content_type = uf_content_type file,
    uf_read = uf_read file\<rparr> = (file :: upload_file)"
  by simp

lemma transcribe_audio_unloaded:
  "whisper_model env = None \<Longrightarrow>
   transcribe_audio env file language timestamp w =
     (Inl (HTTPException 500 ''Whisper model not loaded''), w)"
  by (simp add: transcribe_audio_def)

lemma transcribe_audio_rejected:
  "whisper_model env = Some model \<Longrightarrow> file_ext_of file \<notin> allowed_extensions \<Longrightarrow>
   transcribe_audio env file language timestamp w =
     (Inl (HTTPException 400 (unsupported_detail env (file_ext_of file))), w)"
  by (simp add: transcribe_audio_def)

lemma rejected_when_model_loaded:
  assumes "whisper_model env = Some model"
    and "file_ext_of file \<notin> {''.wav'', ''.mp3'', ''.m4a'', ''.flac'', ''.ogg'', ''.webm''}"
  shows "transcribe_audio env file language timestamp w =
           (Inl (HTTPException 400
              (''Unsupported file type: '' @ file_ext_of file @ ''. Allowed: ''
                 @ repr_set (set_iteration env allowed_extensions_list))), w)
         \<and> set (set_iteration env allowed_extensions_list)
             = {''.wav'', ''.mp3'', ''.m4a'', ''.flac'', ''.ogg'', ''.webm''}
         \<and> distinct (set_iteration env allowed_extensions_list)"
proof -
  from assms(2) have "file_ext_of file \<notin> allowed_extensions"
    by (simp add: allowed_extensions_eq)
  from transcribe_audio_rejected [OF assms(1) this, of language timestamp w]
  have "transcribe_audio env file language timestamp w =
           (Inl (HTTPException 400
              (''Unsupported file type: '' @ file_ext_of file @ ''. Allowed: ''
                 @ repr_set (set_iteration env allowed_extensions_list))), w)"
    by (simp add: unsupported_detail_def)
  moreover have "set (set_iteration env allowed_extensions_list)
      = {''.wav'', ''.mp3'', ''.m4a'', ''.flac'', ''.ogg'', ''.webm''}"
  proof -
    have "set (set_iteration env allowed_extensions_list) = set allowed_extensions_list"
      by (simp add: set_iteration_def)
    also have "\<dots> = {''.wav'', ''.mp3'', ''.m4a'', ''.flac'', ''.ogg'', ''.webm''}"
      by (simp add: allowed_extensions_list_def)
    finally show ?thesis .
  qed
  moreover have "distinct (set_iteration env allowed_extensions_list)"
  proof -
    have "distinct allowed_extensions_list"
      by (simp add: allowed_extensions_list_def)
    then show ?thesis by (simp add: set_iteration_def)
  qed
  ultimately show ?thesis by simp
qed

lemma transcribe_audio_staged:
  assumes "whisper_model env = Some model"
    and "file_ext_of file \<in> allowed_extensions"
    and "tmp_stem env (files w) = Inr stem"
    and "uf_read file = Inr data"
    and "write_file env (stem @ file_ext_of file) data = None"
  shows "transcribe_audio env file language timestamp w =
     ((case close_file env (stem @ file_ext_of file) of
         Some e \<Rightarrow> Inl e
       | None \<Rightarrow>
           (case model (stem @ file_ext_of file) (effective_language language) timestamp of
              Inl e \<Rightarrow> Inl (transcription_failed env e)
            | Inr result \<Rightarrow>
                Inr (JSONResponse (build_response file language timestamp result)))),
      \<lparr>files = (if unlink_denied env (stem @ file_ext_of file)
                then insert (stem @ file_ext_of file) (files w)
                else files w - {stem @ file_ext_of file}),
       engine_calls = engine_calls w
          @ [(stem @ file_ext_of file, effective_language language, timestamp)]\<rparr>)"
  using assms
  by (auto simp add: transcribe_audio_def named_temporary_file_def try_body_def
      finally_cleanup_def with_exit_def os_unlink_def Let_def
      split: sum.splits option.splits)

lemma transcribe_audio_unstaged:
  assumes "whisper_model env = Some model"
    and "file_ext_of file \<in> allowed_extensions"
    and "tmp_stem env (files w) = Inr stem"
    and "uf_read file = Inl e \<or>
         (\<exists>data e. uf_read file = Inr data \<and>
            write_file env (stem @ file_ext_of file) data = Some e)"
  shows "transcribe_audio env file language timestamp w =
     ((case close_file env (stem @ file_ext_of file) of
         Some e \<Rightarrow> Inl e
       | None \<Rightarrow> Inl (UnboundLocalError ''temp_file_path'')),
      w\<lparr>files := insert (stem @ file_ext_of file) (files w)\<rparr>)"
  using assms
  by (auto simp add: transcribe_audio_def named_temporary_file_def try_body_def
      finally_cleanup_def with_exit_def os_unlink_def Let_def
      split: sum.splits option.splits)

lemma transcribe_audio_success:
  assumes "transcribe_audio env file language timestamp w = (Inr resp, w')"
  shows "\<exists>model stem result.
           whisper_model env = Some model \<and> tmp_stem env (files w) = Inr stem \<and>
           model (stem @ file_ext_of file) (effective_language language) timestamp = Inr result \<and>
           resp = JSONResponse (build_response file language timestamp result)"
  using assms
  by (auto simp add: transcribe_audio_def named_temporary_file_def try_body_def
      finally_cleanup_def with_exit_def os_unlink_def Let_def
      split: sum.splits option.splits if_splits)

lemma sample_staging:
  "file_ext_of wav_file \<in> allowed_extensions"
  "uf_read wav_file = Inr ''RIFF''"
  "tmp_stem sample_env (files empty_world) = Inr ''/tmp/tmpa1''"
  "write_file sample_env (''/tmp/tmpa1'' @ file_ext_of wav_file) ''RIFF'' = None"
  "whisper_model sample_env = Some sample_engine"
proof -
  show "file_ext_of wav_file \<in> allowed_extensions"
    by (simp add: file_ext_of_wav_file allowed_extensions_eq)
  show "uf_read wav_file = Inr ''RIFF''"
    by (simp add: wav_file_def)
  show "tmp_stem sample_env (files empty_world) = Inr ''/tmp/tmpa1''"
    by (simp add: sample_env_def)
  show "write_file sample_env (''/tmp/tmpa1'' @ file_ext_of wav_file) ''RIFF'' = None"
    by (simp add: sample_env_def)
  show "whisper_model sample_env = Some sample_engine"
    by (simp add: sample_env_def)
qed

lemma failing_staging:
  "tmp_stem failing_env (files empty_world) = Inr ''/tmp/tmpa1''"
  "write_file failing_env (''/tmp/tmpa1'' @ file_ext_of wav_file) ''RIFF'' = None"
  "whisper_model failing_env = Some failing_engine"
  by (simp_all add: failing_env_def sample_env_def)

lemma flush_failing_staging:
  "tmp_stem flush_failing_env (files empty_world) = Inr ''/tmp/tmpa1''"
  "write_file flush_failing_env (''/tmp/tmpa1'' @ file_ext_of wav_file) ''RIFF'' = None"
  "whisper_model flush_failing_env = Some sample_engine"
  by (simp_all add: flush_failing_env_def sample_env_def)

lemma locked_staging:
  "tmp_stem locked_env (files empty_world) = Inr ''/tmp/tmpa1''"
  "write_file locked_env (''/tmp/tmpa1'' @ file_ext_of wav_file) ''RIFF'' = None"
  "whisper_model locked_env = Some sample_engine"
  by (simp_all add: locked_env_def sample_env_def)

lemma disk_full_staging:
  "tmp_stem disk_full_env (files empty_world) = Inr ''/tmp/tmpa1''"
  "whisper_model disk_full_env = Some sample_engine"
  "close_file disk_full_env p = None"
  "uf_read wav_file = Inl e \<or>
     (\<exists>data e. uf_read wav_file = Inr data \<and>
        write_file disk_full_env (''/tmp/tmpa1'' @ file_ext_of wav_file) data = Some e)"
  by (simp_all add: disk_full_env_def sample_env_def wav_file_def)

lemma sample_response:
  "build_response wav_file language True sample_result =
     \<lparr>resp_text = ''hello world'', resp_language = Some ''en'', resp_duration = 0,
      resp_filename = ''Clip.WAV'',
      resp_segments = Some [\<lparr>rs_start = 0, rs_end = 1, rs_text = '' hello''\<rparr>,
                            \<lparr>rs_start = 1, rs_end = 2, rs_text = '' world ''\<rparr>]\<rparr>"
  "build_response wav_file language False sample_result =
     \<lparr>resp_text = ''hello world'', resp_language = Some ''en'', resp_duration = 0,
      resp_filename = ''Clip.WAV'', resp_segments = None\<rparr>"
  by (simp_all add: build_response_def sample_result_def strip_sample wav_file_def
      response_segments_def)

lemma sample_call:
  "transcribe_audio sample_env wav_file language timestamp empty_world =
     (Inr (JSONResponse (build_response wav_file language timestamp sample_result)),
      \<lparr>files = {}, engine_calls = [(''/tmp/tmpa1.wav'', effective_language language, timestamp)]\<rparr>)"
  using transcribe_audio_staged [of sample_env sample_engine wav_file empty_world
      "''/tmp/tmpa1''" "''RIFF''" language timestamp]
  by (simp add: sample_env_def file_ext_of_wav_file allowed_extensions_eq sample_engine_def
      empty_world_def) (simp add: wav_file_def)

section \<open>How the batch loop unfolds\<close>

lemma item_call_accepted:
  "upload_file_init env (uf_filename file) (uf_content_type file) = None \<Longrightarrow>
   item_call env language file w = transcribe_audio env file language False w"
  by (simp add: item_call_def single_file_eq)


lemma batch_item_fst_snd:
  "snd (batch_item env language file w) = snd (item_call env language file w)"
  by (auto simp add: batch_item_def split: prod.splits sum.splits)


lemma batch_item_success:
  "fst (item_call env language file w) = Inr r \<Longrightarrow>
   fst (batch_item env language file w) =
     \<lparr>be_filename = uf_filename file, be_status = ''success'',
      be_detail = Result (Decoded (render env (content_of r)))\<rparr>"
  by (auto simp add: batch_item_def has_body_def body_def split: prod.splits sum.splits)


lemma batch_loop_acc:
  "batch_loop env language fs (acc, w) =
     (acc @ fst (batch_loop env language fs ([], w)), snd (batch_loop env language fs ([], w)))"
proof (induction fs arbitrary: acc w)
  case Nil
  show ?case by simp
next
  case (Cons f fs)
  obtain entry w' where step: "batch_item env language f w = (entry, w')"
    by (cases "batch_item env language f w")
  have "batch_loop env language (f # fs) (acc, w) = batch_loop env language fs (acc @ [entry], w')"
    by (simp add: step)
  also have "\<dots> = ((acc @ [entry]) @ fst (batch_loop env language fs ([], w')),
                    snd (batch_loop env language fs ([], w')))"
    by (rule Cons.IH)
  also have "\<dots> = (acc @ fst (batch_loop env language (f # fs) ([], w)),
                    snd (batch_loop env language (f # fs) ([], w)))"
    using Cons.IH [of "[entry]" w'] by (simp add: step)
  finally show ?case .
qed

lemma batch_loop_Cons:
  "fst (batch_loop env language (f # fs) ([], w)) =
     fst (batch_item env language f w)
       # fst (batch_loop env language fs ([], snd (batch_item env language f w)))"
  "snd (batch_loop env language (f # fs) ([], w)) =
     snd (batch_loop env language fs ([], snd (batch_item env language f w)))"
  using batch_loop_acc [of env language fs "[fst (batch_item env language f w)]"
      "snd (batch_item env language f w)"]
  by (simp_all add: split_beta)




lemma batch_loop_nth:
  "i < length fs \<Longrightarrow>
   fst (batch_loop env language fs ([], w)) ! i =
     fst (batch_item env language (fs ! i) (world_after env language (take i fs) w))"
proof (induction fs arbitrary: i w)
  case Nil
  then show ?case by simp
next
  case (Cons f fs)
  show ?case
  proof (cases i)
    case 0
    then show ?thesis by (simp add: batch_loop_Cons del: batch_loop.simps(2))
  next
    case (Suc j)
    with Cons.prems have "j < length fs" by simp
    from Cons.IH [OF this] show ?thesis
      by (simp add: Suc batch_loop_Cons batch_item_fst_snd del: batch_loop.simps(2))
  qed
qed

lemma batch_results:
  "results (content_of (fst (transcribe_batch env fs language w))) =
     fst (batch_loop env language fs ([], w))"
  "snd (transcribe_batch env fs language w) = snd (batch_loop env language fs ([], w))"
  by (simp_all add: transcribe_batch_def split_beta)

lemma item_call_unloaded:
  assumes "whisper_model env = None"
  shows "item_call env language file w =
     (Inl (case upload_file_init env (uf_filename file) (uf_content_type file) of
             Some e \<Rightarrow> e
           | None \<Rightarrow> HTTPException 500 ''Whisper model not loaded''), w)"
  by (simp add: item_call_def transcribe_audio_unloaded [OF assms] split: option.splits)

lemma batch_without_model_entries:
  assumes "whisper_model env = None"
  shows "transcribe_batch env fs language w =
     (JSONResponse \<lparr>results = map (\<lambda>file.
         \<lparr>be_filename = uf_filename file, be_status = ''error'',
          be_detail = Error (str_of env
            (case upload_file_init env (uf_filename file) (uf_content_type file) of
               Some e \<Rightarrow> e
             | None \<Rightarrow> HTTPException 500 ''Whisper model not loaded''))\<rparr>) fs\<rparr>,
      w)"
proof -
  have item: "batch_item env language f v =
      (\<lparr>be_filename = uf_filename f, be_status = ''error'',
        be_detail = Error (str_of env
          (case upload_file_init env (uf_filename f) (uf_content_type f) of
             Some e \<Rightarrow> e
           | None \<Rightarrow> HTTPException 500 ''Whisper model not loaded''))\<rparr>, v)"
    for f v
    by (simp add: batch_item_def item_call_unloaded [OF assms])
  have loop: "batch_loop env language fs ([], v) =
      (map (\<lambda>file. \<lparr>be_filename = uf_filename file, be_status = ''error'',
          be_detail = Error (str_of env
            (case upload_file_init env (uf_filename file) (uf_content_type file) of
               Some e \<Rightarrow> e
             | None \<Rightarrow> HTTPException 500 ''Whisper model not loaded''))\<rparr>) fs, v)"
    for v
    by (induction fs arbitrary: v)
      (simp_all add: prod_eq_iff batch_loop_Cons item del: batch_loop.simps(2))
  show ?thesis by (simp add: transcribe_batch_def loop)
qed

section \<open>The single-item handler\<close>

text \<open>
  Claim C9. While no model is loaded, every call of \<^verbatim>\<open>transcribe_audio\<close> raises
  \<^verbatim>\<open>HTTPException(500, "Whisper model not loaded")\<close> whatever the filename, and leaves the
  state unchanged: the check of the model comes before the check of the extension, so a
  file with a disallowed extension gets the 500 error too.
\<close>

theorem engine_check_precedes_validation:
  assumes "whisper_model env = None"
  shows "transcribe_audio env file language timestamp w =
           (Inl (HTTPException 500 ''Whisper model not loaded''), w)"
  using assms by (simp add: transcribe_audio_def)

text \<open>The upload \<^verbatim>\<open>clip.txt\<close>, whose extension is not allowed, gets the 500 error.\<close>

theorem engine_check_precedes_validation_witness:
  "whisper_model unloaded_env = None \<and> file_ext_of txt_file \<notin> allowed_extensions \<and>
   transcribe_audio unloaded_env txt_file (Some ''si'') False empty_world =
     (Inl (HTTPException 500 ''Whisper model not loaded''), empty_world)"
proof -
  have h: "whisper_model unloaded_env = None"
    by (simp add: unloaded_env_def sample_env_def)
  show ?thesis
    using h engine_check_precedes_validation [OF h, of txt_file "Some ''si''" False empty_world]
    by (simp add: file_ext_of_txt_file allowed_extensions_eq)
qed

text \<open>
  Claim C3 fails on the code. \<^verbatim>\<open>test_transcribe_invalid_file_type\<close> posts \<^verbatim>\<open>test.txt\<close> with
  language \<^verbatim>\<open>si\<close> to an application whose startup has not run, so no model is loaded, and
  expects the 400 rejection that names the unsupported type. The guard of line 78 comes
  first: the call raises \<^verbatim>\<open>HTTPException(500, "Whisper model not loaded")\<close> although the
  extension \<^verbatim>\<open>.txt\<close> is outside the allowed set.
\<close>

theorem invalid_type_without_model_gets_500:
  "whisper_model unloaded_env = None
   \<and> file_ext_of test_txt_file = ''.txt''
   \<and> ''.txt'' \<notin> allowed_extensions
   \<and> transcribe_audio unloaded_env test_txt_file (Some ''si'') False empty_world =
       (Inl (HTTPException 500 ''Whisper model not loaded''), empty_world)"
  by (simp add: file_ext_of_test_txt_file allowed_extensions_eq transcribe_audio_unloaded
      unloaded_env_def sample_env_def)

text \<open>
  Claim C1, as amended. For every call that created and wrote its staging file, whatever the
  engine then does (a result or an exception), the staging file exists after the call
  exactly when the operating system refuses to delete it: the file is gone unless
  \<^verbatim>\<open>os.unlink\<close> raises \<^verbatim>\<open>OSError\<close>, which line 135 ignores.
\<close>

theorem staging_file_removed_unless_denied:
  assumes "whisper_model env = Some model"
    and "file_ext_of file \<in> allowed_extensions"
    and "tmp_stem env (files w) = Inr stem"
    and "uf_read file = Inr data"
    and "write_file env (stem @ file_ext_of file) data = None"
  shows "(stem @ file_ext_of file \<in> files (snd (transcribe_audio env file language timestamp w)))
           = unlink_denied env (stem @ file_ext_of file)"
  using transcribe_audio_staged [OF assms, of language timestamp] by simp

text \<open>An engine failure and a success, both with the staging file removed.\<close>

theorem staging_file_removed_unless_denied_witness:
  "whisper_model failing_env = Some failing_engine
   \<and> file_ext_of wav_file \<in> allowed_extensions
   \<and> tmp_stem failing_env (files empty_world) = Inr ''/tmp/tmpa1''
   \<and> uf_read wav_file = Inr ''RIFF''
   \<and> write_file failing_env (''/tmp/tmpa1'' @ file_ext_of wav_file) ''RIFF'' = None
   \<and> ''/tmp/tmpa1.wav''
        \<notin> files (snd (transcribe_audio failing_env wav_file (Some ''en'') False empty_world))
   \<and> ''/tmp/tmpa1.wav''
        \<notin> files (snd (transcribe_audio sample_env wav_file (Some ''en'') False empty_world))"
  using sample_staging failing_staging
    staging_file_removed_unless_denied
      [OF failing_staging(3) sample_staging(1) failing_staging(1) sample_staging(2)
          failing_staging(2), of "Some ''en''" False]
    staging_file_removed_unless_denied [OF sample_staging(5,1,3,2,4), of "Some ''en''" False]
  by (simp add: file_ext_of_wav_file failing_env_def sample_env_def)

text \<open>
  Claim C1 as stated fails where the deletion is refused: the call succeeds and the staging
  file \<^verbatim>\<open>/tmp/tmpa1.wav\<close> is still there.
\<close>

theorem staging_file_left_counterexample:
  "transcribe_audio locked_env wav_file (Some ''en'') False empty_world =
     (Inr (JSONResponse
        \<lparr>resp_text = ''hello world'', resp_language = Some ''en'', resp_duration = 0,
         resp_filename = ''Clip.WAV'', resp_segments = None\<rparr>),
      \<lparr>files = {''/tmp/tmpa1.wav''},
       engine_calls = [(''/tmp/tmpa1.wav'', Some ''en'', False)]\<rparr>)
   \<and> ''/tmp/tmpa1.wav''
        \<in> files (snd (transcribe_audio locked_env wav_file (Some ''en'') False empty_world))"
  using transcribe_audio_staged
      [OF locked_staging(3) sample_staging(1) locked_staging(1) sample_staging(2)
          locked_staging(2), of "Some ''en''" False]
  by (simp add: file_ext_of_wav_file sample_engine_def sample_response effective_language_def
      empty_world_def locked_env_def sample_env_def)

text \<open>
  Claim C6 fails on the code. When writing the staging file raises (here: the disk is
  full), \<^verbatim>\<open>temp_file_path\<close> is still unbound when the \<^verbatim>\<open>finally\<close> clause runs; the
  \<^verbatim>\<open>UnboundLocalError\<close> of line 134 is not an \<^verbatim>\<open>OSError\<close>, so it escapes and replaces the
  pending \<^verbatim>\<open>HTTPException(500, "Transcription failed: ...")\<close>, and the staging file stays.
\<close>

theorem cleanup_error_replaces_outcome:
  "transcribe_audio disk_full_env wav_file (Some ''en'') False empty_world =
     (Inl (UnboundLocalError ''temp_file_path''),
      \<lparr>files = {''/tmp/tmpa1.wav''}, engine_calls = []\<rparr>)"
  using transcribe_audio_unstaged
      [OF disk_full_staging(2) sample_staging(1) disk_full_staging(1) disk_full_staging(4),
        of "Some ''en''" False]
  by (simp add: file_ext_of_wav_file empty_world_def disk_full_staging(3))

text \<open>
  Claim C7. For every request that reaches the engine (a model is loaded, the extension is
  allowed, the staging file is created and written; none of these looks at the language),
  the engine is called exactly once, with the caller's language when it is \<^verbatim>\<open>si\<close> or
  \<^verbatim>\<open>en\<close> and with \<^verbatim>\<open>None\<close> (auto-detect) for any other value; the outcome is the shaped
  engine result or the engine's failure as a 500 error, or else the exception raised by
  closing the temporary file when the \<^verbatim>\<open>with\<close> block is left, never a rejection of the
  language.
\<close>

theorem language_hint_normalised:
  assumes "whisper_model env = Some model"
    and "file_ext_of file \<in> allowed_extensions"
    and "tmp_stem env (files w) = Inr stem"
    and "uf_read file = Inr data"
    and "write_file env (stem @ file_ext_of file) data = None"
  shows "engine_calls (snd (transcribe_audio env file language timestamp w)) =
           engine_calls w @
             [(stem @ file_ext_of file,
               (if language = Some ''si'' \<or> language = Some ''en'' then language else None),
               timestamp)]
         \<and> fst (transcribe_audio env file language timestamp w) =
             (case close_file env (stem @ file_ext_of file) of
                Some e \<Rightarrow> Inl e
              | None \<Rightarrow>
                  (case model (stem @ file_ext_of file)
                          (if language = Some ''si'' \<or> language = Some ''en''
                           then language else None)
                          timestamp of
                     Inl e \<Rightarrow>
                       Inl (HTTPException 500 (''Transcription failed: '' @ str_of env e))
                   | Inr result \<Rightarrow>
                       Inr (JSONResponse (build_response file language timestamp result))))"
proof -
  have "effective_language language =
      (if language = Some ''si'' \<or> language = Some ''en'' then language else None)"
    by (simp add: effective_language_def)
  with transcribe_audio_staged [OF assms, of language timestamp] show ?thesis
    by (simp add: transcription_failed_def split: sum.splits option.splits)
qed

text \<open>
  The languages \<^verbatim>\<open>xx\<close> and \<^verbatim>\<open>auto\<close> reach the engine as \<^verbatim>\<open>None\<close>, \<^verbatim>\<open>si\<close> as itself; where
  closing the temporary file fails, the engine has been called all the same and the call
  ends in the error of the close.
\<close>

theorem language_hint_normalised_witness:
  "whisper_model sample_env = Some sample_engine
   \<and> file_ext_of wav_file \<in> allowed_extensions
   \<and> tmp_stem sample_env (files empty_world) = Inr ''/tmp/tmpa1''
   \<and> uf_read wav_file = Inr ''RIFF''
   \<and> write_file sample_env (''/tmp/tmpa1'' @ file_ext_of wav_file) ''RIFF'' = None
   \<and> engine_calls (snd (transcribe_audio sample_env wav_file (Some ''xx'') False empty_world))
       = [(''/tmp/tmpa1.wav'', None, False)]
   \<and> fst (transcribe_audio sample_env wav_file (Some ''xx'') False empty_world)
       = Inr (JSONResponse (build_response wav_file (Some ''xx'') False sample_result))
   \<and> engine_calls (snd (transcribe_audio sample_env wav_file (Some ''si'') False empty_world))
       = [(''/tmp/tmpa1.wav'', Some ''si'', False)]
   \<and> engine_calls (snd (transcribe_audio sample_env wav_file (Some ''auto'') False empty_world))
       = [(''/tmp/tmpa1.wav'', None, False)]
   \<and> engine_calls (snd (transcribe_audio flush_failing_env wav_file (Some ''xx'') False
        empty_world)) = [(''/tmp/tmpa1.wav'', None, False)]
   \<and> fst (transcribe_audio flush_failing_env wav_file (Some ''xx'') False empty_world)
       = Inl (OSError ''No space left on device'')"
  using sample_staging
    language_hint_normalised [OF sample_staging(5,1,3,2,4), of "Some ''xx''" False]
    language_hint_normalised [OF sample_staging(5,1,3,2,4), of "Some ''si''" False]
    language_hint_normalised [OF sample_staging(5,1,3,2,4), of "Some ''auto''" False]
    language_hint_normalised
      [OF flush_failing_staging(3) sample_staging(1) flush_failing_staging(1)
          sample_staging(2) flush_failing_staging(2), of "Some ''xx''" False]
  by (simp add: file_ext_of_wav_file empty_world_def sample_engine_def sample_env_def
      flush_failing_env_def)

text \<open>
  Claim C8. For every successful call, the returned \<^verbatim>\<open>text\<close> is the engine's text with
  leading and trailing whitespace removed: the engine's text is a run of whitespace, the
  returned text, and a run of whitespace, and the returned text neither starts nor ends with
  whitespace; the returned \<^verbatim>\<open>filename\<close> is the uploaded filename.
\<close>

theorem text_trimmed_and_filename_echoed:
  assumes "transcribe_audio env file language timestamp w = (Inr resp, w')"
  shows "\<exists>model stem result pre post.
           whisper_model env = Some model \<and> tmp_stem env (files w) = Inr stem \<and>
           model (stem @ file_ext_of file) (effective_language language) timestamp = Inr result \<and>
           resp_text (content_of resp) = strip (res_text result) \<and>
           res_text result = pre @ resp_text (content_of resp) @ post \<and>
           list_all is_space pre \<and> list_all is_space post \<and>
           (resp_text (content_of resp) = [] \<or>
              (\<not> is_space (hd (resp_text (content_of resp))) \<and>
               \<not> is_space (last (resp_text (content_of resp))))) \<and>
           resp_filename (content_of resp) = uf_filename file"
proof -
  from transcribe_audio_success [OF assms]
  obtain model stem result where
    m: "whisper_model env = Some model" "tmp_stem env (files w) = Inr stem"
       "model (stem @ file_ext_of file) (effective_language language) timestamp = Inr result"
    and r: "resp = JSONResponse (build_response file language timestamp result)"
    by blast
  have t: "resp_text (content_of resp) = strip (res_text result)"
    and f: "resp_filename (content_of resp) = uf_filename file"
    by (simp_all add: r build_response_def Let_def split: option.splits)
  obtain pre post where
    d: "res_text result = pre @ strip (res_text result) @ post"
       "list_all is_space pre" "list_all is_space post"
    using strip_decomposition [of "res_text result"] by blast
  from strip_no_edges [of "res_text result"] m t f d show ?thesis
    by (metis (no_types, lifting))
qed

theorem text_trimmed_and_filename_echoed_witness:
  "transcribe_audio sample_env wav_file (Some ''xx'') False empty_world =
     (Inr (JSONResponse
        \<lparr>resp_text = ''hello world'', resp_language = Some ''en'', resp_duration = 0,
         resp_filename = ''Clip.WAV'', resp_segments = None\<rparr>),
      \<lparr>files = {}, engine_calls = [(''/tmp/tmpa1.wav'', None, False)]\<rparr>)
   \<and> sample_engine ''/tmp/tmpa1.wav'' None False = Inr sample_result
   \<and> res_text sample_result = '' hello world ''
   \<and> uf_filename wav_file = ''Clip.WAV''"
proof -
  have h: "transcribe_audio sample_env wav_file (Some ''xx'') False empty_world =
     (Inr (JSONResponse
        \<lparr>resp_text = ''hello world'', resp_language = Some ''en'', resp_duration = 0,
         resp_filename = ''Clip.WAV'', resp_segments = None\<rparr>),
      \<lparr>files = {}, engine_calls = [(''/tmp/tmpa1.wav'', None, False)]\<rparr>)"
    by (simp add: sample_call sample_response effective_language_def)
  from text_trimmed_and_filename_echoed [OF h]
  have "uf_filename wav_file = ''Clip.WAV''" by auto
  with h show ?thesis
    by (simp add: sample_engine_def sample_result_def)
qed

text \<open>
  Claim C5, as amended. For every successful call, the response has a \<^verbatim>\<open>segments\<close> key
  exactly when timestamps were requested and the engine's result has one; the segments then
  follow the engine's, in order and number, each with the engine's start, end and text, the
  text unchanged (it is not trimmed).
\<close>

theorem segments_follow_engine:
  assumes "transcribe_audio env file language timestamp w = (Inr resp, w')"
  shows "\<exists>model stem result.
           whisper_model env = Some model \<and> tmp_stem env (files w) = Inr stem \<and>
           model (stem @ file_ext_of file) (effective_language language) timestamp = Inr result \<and>
           (resp_segments (content_of resp) \<noteq> None
              \<longleftrightarrow> timestamp \<and> res_segments result \<noteq> None) \<and>
           (\<forall>segs. timestamp \<and> res_segments result = Some segs \<longrightarrow>
              resp_segments (content_of resp) =
                Some (map (\<lambda>segment. \<lparr>rs_start = seg_start segment, rs_end = seg_end segment,
                                         rs_text = seg_text segment\<rparr>) segs))"
proof -
  from transcribe_audio_success [OF assms]
  obtain model stem result where
    m: "whisper_model env = Some model" "tmp_stem env (files w) = Inr stem"
       "model (stem @ file_ext_of file) (effective_language language) timestamp = Inr result"
    and r: "resp = JSONResponse (build_response file language timestamp result)"
    by blast
  have "resp_segments (content_of resp) \<noteq> None \<longleftrightarrow> timestamp \<and> res_segments result \<noteq> None"
    by (simp add: r build_response_def Let_def split: option.splits)
  moreover have "\<forall>segs. timestamp \<and> res_segments result = Some segs \<longrightarrow>
      resp_segments (content_of resp) =
        Some (map (\<lambda>segment. \<lparr>rs_start = seg_start segment, rs_end = seg_end segment,
                                 rs_text = seg_text segment\<rparr>) segs)"
    by (simp add: r build_response_def response_segments_def Let_def split: option.splits)
  ultimately show ?thesis using m by blast
qed

theorem segments_follow_engine_witness:
  "transcribe_audio sample_env wav_file (Some ''en'') True empty_world =
     (Inr (JSONResponse
        \<lparr>resp_text = ''hello world'', resp_language = Some ''en'', resp_duration = 0,
         resp_filename = ''Clip.WAV'',
         resp_segments = Some [\<lparr>rs_start = 0, rs_end = 1, rs_text = '' hello''\<rparr>,
                               \<lparr>rs_start = 1, rs_end = 2, rs_text = '' world ''\<rparr>]\<rparr>),
      \<lparr>files = {}, engine_calls = [(''/tmp/tmpa1.wav'', Some ''en'', True)]\<rparr>)
   \<and> (\<exists>model stem result.
         whisper_model sample_env = Some model \<and>
         tmp_stem sample_env (files empty_world) = Inr stem \<and>
         model (stem @ file_ext_of wav_file) (effective_language (Some ''en'')) True = Inr result \<and>
         res_segments result \<noteq> None)"
proof -
  have h: "transcribe_audio sample_env wav_file (Some ''en'') True empty_world =
     (Inr (JSONResponse
        \<lparr>resp_text = ''hello world'', resp_language = Some ''en'', resp_duration = 0,
         resp_filename = ''Clip.WAV'',
         resp_segments = Some [\<lparr>rs_start = 0, rs_end = 1, rs_text = '' hello''\<rparr>,
                               \<lparr>rs_start = 1, rs_end = 2, rs_text = '' world ''\<rparr>]\<rparr>),
      \<lparr>files = {}, engine_calls = [(''/tmp/tmpa1.wav'', Some ''en'', True)]\<rparr>)"
    by (simp add: sample_call sample_response effective_language_def)
  from segments_follow_engine [OF h]
  have "\<exists>model stem result.
         whisper_model sample_env = Some model \<and>
         tmp_stem sample_env (files empty_world) = Inr stem \<and>
         model (stem @ file_ext_of wav_file) (effective_language (Some ''en'')) True = Inr result \<and>
         res_segments result \<noteq> None"
    by auto
  with h show ?thesis by (rule conjI)
qed

text \<open>
  Claim C5 as stated fails: the engine's segment texts \<^verbatim>\<open>" hello"\<close> and \<^verbatim>\<open>" world "\<close> come
  back as they are, not trimmed.
\<close>

theorem segment_text_counterexample:
  "transcribe_audio sample_env wav_file (Some ''en'') True empty_world =
     (Inr (JSONResponse
        \<lparr>resp_text = ''hello world'', resp_language = Some ''en'', resp_duration = 0,
         resp_filename = ''Clip.WAV'',
         resp_segments = Some [\<lparr>rs_start = 0, rs_end = 1, rs_text = '' hello''\<rparr>,
                               \<lparr>rs_start = 1, rs_end = 2, rs_text = '' world ''\<rparr>]\<rparr>),
      \<lparr>files = {}, engine_calls = [(''/tmp/tmpa1.wav'', Some ''en'', True)]\<rparr>)
   \<and> sample_engine ''/tmp/tmpa1.wav'' (Some ''en'') True = Inr sample_result
   \<and> res_segments sample_result =
        Some [\<lparr>seg_start = 0, seg_end = 1, seg_text = '' hello''\<rparr>,
              \<lparr>seg_start = 1, seg_end = 2, seg_text = '' world ''\<rparr>]
   \<and> strip '' hello'' = ''hello'' \<and> strip '' world '' = ''world''
   \<and> '' hello'' \<noteq> strip '' hello'' \<and> '' world '' \<noteq> strip '' world ''"
proof -
  have "res_segments sample_result =
        Some [\<lparr>seg_start = 0, seg_end = 1, seg_text = '' hello''\<rparr>,
              \<lparr>seg_start = 1, seg_end = 2, seg_text = '' world ''\<rparr>]"
    by (simp add: sample_result_def)
  then show ?thesis
    by (simp add: sample_call sample_response effective_language_def sample_engine_def
        strip_segment_texts)
qed

section \<open>The batch handler\<close>



text \<open>
  Claim C4, as amended. For every batch item whose per-item call (the re-wrap of the
  upload, then the single-item handler) returns the response \<open>r\<close>, the entry carries the
  item's filename, status \<^verbatim>\<open>success\<close>, and as payload the decoded body text of \<open>r\<close> (the JSON
  rendering of the response dictionary), not the dictionary.
\<close>

theorem batch_success_payload_is_body_text:
  assumes "i < length fs"
    and "fst (item_call env language (fs ! i) (world_after env language (take i fs) w)) = Inr r"
  shows "results (content_of (fst (transcribe_batch env fs language w))) ! i =
           \<lparr>be_filename = uf_filename (fs ! i), be_status = ''success'',
            be_detail = Result (Decoded (render env (content_of r)))\<rparr>"
  using assms by (simp add: batch_results batch_loop_nth batch_item_success)

theorem batch_success_payload_is_body_text_witness:
  "(0::nat) < length [wav_file]
   \<and> fst (item_call sample_env (Some ''en'') ([wav_file] ! 0)
        (world_after sample_env (Some ''en'') (take 0 [wav_file]) empty_world))
       = Inr (JSONResponse (build_response wav_file (Some ''en'') False sample_result))
   \<and> results (content_of (fst (transcribe_batch sample_env [wav_file] (Some ''en'')
        empty_world))) ! 0 =
       \<lparr>be_filename = ''Clip.WAV'', be_status = ''success'',
        be_detail = Result (Decoded ''{text:hello world,filename:Clip.WAV}'')\<rparr>"
proof -
  have "item_call sample_env (Some ''en'') wav_file empty_world =
      transcribe_audio sample_env wav_file (Some ''en'') False empty_world"
    by (rule item_call_accepted) (simp add: sample_env_def)
  then have a: "fst (item_call sample_env (Some ''en'') ([wav_file] ! 0)
        (world_after sample_env (Some ''en'') (take 0 [wav_file]) empty_world))
       = Inr (JSONResponse (build_response wav_file (Some ''en'') False sample_result))"
    by (simp add: sample_call)
  have b: "(0::nat) < length [wav_file]" by simp
  from batch_success_payload_is_body_text [OF b a] a b show ?thesis
    by (simp add: sample_env_def sample_render_def build_response_def sample_result_def
        strip_sample wav_file_def)
qed

text \<open>
  Claim C4 as stated fails where the constructor accepts \<^verbatim>\<open>content_type\<close>: for the batch of
  the one file \<^verbatim>\<open>Clip.WAV\<close> the item succeeds, and the payload of its entry is not the
  response produced by the single-item call.
\<close>

theorem batch_payload_counterexample:
  "upload_file_init sample_env ''Clip.WAV'' ''audio/wav'' = None
   \<and> fst (transcribe_audio sample_env wav_file (Some ''en'') False empty_world)
     = Inr (JSONResponse (build_response wav_file (Some ''en'') False sample_result))
   \<and> be_status (results (content_of (fst (transcribe_batch sample_env [wav_file] (Some ''en'')
        empty_world))) ! 0) = ''success''
   \<and> be_detail (results (content_of (fst (transcribe_batch sample_env [wav_file] (Some ''en'')
        empty_world))) ! 0)
     \<noteq> Result (Raw (JSONResponse (build_response wav_file (Some ''en'') False sample_result)))"
proof -
  have i: "upload_file_init sample_env ''Clip.WAV'' ''audio/wav'' = None"
    by (simp add: sample_env_def)
  have a: "fst (transcribe_audio sample_env wav_file (Some ''en'') False empty_world)
     = Inr (JSONResponse (build_response wav_file (Some ''en'') False sample_result))"
    by (simp add: sample_call)
  have "item_call sample_env (Some ''en'') wav_file empty_world =
      transcribe_audio sample_env wav_file (Some ''en'') False empty_world"
    by (rule item_call_accepted) (simp add: sample_env_def)
  with a have c: "fst (item_call sample_env (Some ''en'') wav_file empty_world)
     = Inr (JSONResponse (build_response wav_file (Some ''en'') False sample_result))"
    by simp
  have "results (content_of (fst (transcribe_batch sample_env [wav_file] (Some ''en'')
        empty_world))) ! 0 = fst (batch_item sample_env (Some ''en'') wav_file empty_world)"
    by (simp add: batch_results batch_loop_Cons del: batch_loop.simps(2))
  with i a show ?thesis by (simp add: batch_item_success [OF c])
qed

text \<open>
  Claim C10 fails on the code. With no model loaded the batch still returns one error entry
  per file and changes nothing, but no entry carries the text \<^verbatim>\<open>Whisper model not loaded\<close>.
  Where the constructor refuses \<^verbatim>\<open>content_type\<close> the re-wrap of line 158 raises first and each
  entry carries the text of that \<^verbatim>\<open>TypeError\<close>; where the constructor accepts it, the
  \<^verbatim>\<open>HTTPException\<close> of line 79 reaches line 181, and its \<^verbatim>\<open>str\<close> is empty, the text being in
  \<^verbatim>\<open>detail\<close>.
\<close>

theorem batch_without_model_loses_message:
  "transcribe_batch unloaded_strict_env [wav_file, txt_file] (Some ''si'') empty_world =
     (JSONResponse \<lparr>results =
        [\<lparr>be_filename = ''Clip.WAV'', be_status = ''error'',
          be_detail = Error (''UploadFile.__init__() got an unexpected keyword argument ''
                               @ repr_str ''content_type'')\<rparr>,
         \<lparr>be_filename = ''clip.txt'', be_status = ''error'',
          be_detail = Error (''UploadFile.__init__() got an unexpected keyword argument ''
                               @ repr_str ''content_type'')\<rparr>]\<rparr>, empty_world)
   \<and> transcribe_batch unloaded_env [wav_file, txt_file] (Some ''si'') empty_world =
     (JSONResponse \<lparr>results =
        [\<lparr>be_filename = ''Clip.WAV'', be_status = ''error'', be_detail = Error ''''\<rparr>,
         \<lparr>be_filename = ''clip.txt'', be_status = ''error'', be_detail = Error ''''\<rparr>]\<rparr>,
      empty_world)"
proof -
  have s: "whisper_model unloaded_strict_env = None"
    by (simp add: unloaded_strict_env_def)
  have u: "whisper_model unloaded_env = None"
    by (simp add: unloaded_env_def)
  show ?thesis
    using batch_without_model_entries [OF s, of "[wav_file, txt_file]" "Some ''si''" empty_world]
      batch_without_model_entries [OF u, of "[wav_file, txt_file]" "Some ''si''" empty_world]
    by (simp add: unloaded_strict_env_def strict_init_env_def unloaded_env_def sample_env_def
        wav_file_def txt_file_def content_type_error_def)
qed

end
